theory Spec2Isabelle
  imports Complex_Main
begin

section \<open>Flocking in 2D: the simulation core of the fish demo\<close>

text \<open>
  The flocking demo keeps a list \<open>fishies\<close> of meshes, each carrying a position, a
  velocity and an acceleration (three.js \<open>Vector3\<close> objects) and a rotation about the z
  axis. Every frame \<open>render\<close> walks the list once and, for each fish in turn, computes three
  steering forces by scanning the whole list, integrates, recomputes the rotation and wraps
  the position at the boundary.

  JavaScript numbers are modelled as real numbers, with exact arithmetic. The only place
  where the code divides without a guard is the rotation; there the quotient is modelled with
  the IEEE special values written out (\<open>jsnum\<close>). The only place where the code
  compares a computed sum with zero is the magnitude test of \<open>avoid\<close>, where rounding
  can decide the branch; \<open>avoid\<close> is therefore also modelled over an arithmetic whose
  rounding is left open (\<open>avoid_fp\<close>).
\<close>

subsection \<open>Vector3\<close>

text \<open>
  The methods of \<open>THREE.Vector3\<close> the simulation calls. The library mutates the receiver
  and returns it; here each method returns the new value of the receiver. The fields are
  \<open>x\<close>, \<open>y\<close>, \<open>z\<close> in the library.
\<close>

record vector3 =
  vec_x :: real
  vec_y :: real
  vec_z :: real

definition Vector3 :: "real \<Rightarrow> real \<Rightarrow> real \<Rightarrow> vector3" where
  "Vector3 a b c = \<lparr>vec_x = a, vec_y = b, vec_z = c\<rparr>"

definition add :: "vector3 \<Rightarrow> vector3 \<Rightarrow> vector3" where
  "add u v = \<lparr>vec_x = vec_x u + vec_x v, vec_y = vec_y u + vec_y v, vec_z = vec_z u + vec_z v\<rparr>"

definition sub :: "vector3 \<Rightarrow> vector3 \<Rightarrow> vector3" where
  "sub u v = \<lparr>vec_x = vec_x u - vec_x v, vec_y = vec_y u - vec_y v, vec_z = vec_z u - vec_z v\<rparr>"

definition subVectors :: "vector3 \<Rightarrow> vector3 \<Rightarrow> vector3" where
  "subVectors a b = \<lparr>vec_x = vec_x a - vec_x b, vec_y = vec_y a - vec_y b, vec_z = vec_z a - vec_z b\<rparr>"

definition multiplyScalar :: "vector3 \<Rightarrow> real \<Rightarrow> vector3" where
  "multiplyScalar v s = \<lparr>vec_x = vec_x v * s, vec_y = vec_y v * s, vec_z = vec_z v * s\<rparr>"

definition divideScalar :: "vector3 \<Rightarrow> real \<Rightarrow> vector3" where
  \<comment> \<open>\<open>return this.multiplyScalar(1 / scalar)\<close>\<close>
  "divideScalar v s = multiplyScalar v (1 / s)"

definition length3 :: "vector3 \<Rightarrow> real" where
  \<comment> \<open>\<open>length()\<close>\<close>
  "length3 v = sqrt (vec_x v * vec_x v + vec_y v * vec_y v + vec_z v * vec_z v)"

definition normalize3 :: "vector3 \<Rightarrow> vector3" where
  \<comment> \<open>\<open>return this.divideScalar(this.length() || 1)\<close>: a zero length is replaced by 1\<close>
  "normalize3 v = divideScalar v (if length3 v = 0 then 1 else length3 v)"

definition clampScalar :: "vector3 \<Rightarrow> real \<Rightarrow> real \<Rightarrow> vector3" where
  \<comment> \<open>each component becomes \<open>Math.max(minVal, Math.min(maxVal, c))\<close>\<close>
  "clampScalar v minVal maxVal =
     \<lparr>vec_x = max minVal (min maxVal (vec_x v)),
      vec_y = max minVal (min maxVal (vec_y v)),
      vec_z = max minVal (min maxVal (vec_z v))\<rparr>"

definition distanceToSquared :: "vector3 \<Rightarrow> vector3 \<Rightarrow> real" where
  "distanceToSquared u v =
     (let dx = vec_x u - vec_x v; dy = vec_y u - vec_y v; dz = vec_z u - vec_z v
      in dx * dx + dy * dy + dz * dz)"

definition distanceTo :: "vector3 \<Rightarrow> vector3 \<Rightarrow> real" where
  "distanceTo u v = sqrt (distanceToSquared u v)"

subsection \<open>Numbers with the IEEE special values, for the rotation\<close>

datatype jsnum = Finite real | PosInfinity | NegInfinity | NaN

definition js_divide :: "real \<Rightarrow> real \<Rightarrow> jsnum" where
  \<comment> \<open>\<open>a / b\<close> of two finite numbers; a zero divisor is read as \<open>+0\<close>\<close>
  "js_divide a b =
     (if b \<noteq> 0 then Finite (a / b)
      else if a > 0 then PosInfinity
      else if a < 0 then NegInfinity
      else NaN)"

fun js_atan :: "jsnum \<Rightarrow> jsnum" where
  "js_atan (Finite r) = Finite (arctan r)"
| "js_atan PosInfinity = Finite (pi / 2)"
| "js_atan NegInfinity = Finite (- (pi / 2))"
| "js_atan NaN = NaN"

fun js_minus :: "jsnum \<Rightarrow> real \<Rightarrow> jsnum" where
  "js_minus (Finite a) b = Finite (a - b)"
| "js_minus PosInfinity b = PosInfinity"
| "js_minus NegInfinity b = NegInfinity"
| "js_minus NaN b = NaN"

subsection \<open>The parameters and the fish\<close>

definition numFish :: nat where "numFish = 150"
definition fishSize :: real where "fishSize = 7"
definition boundaryWidth :: real where "boundaryWidth = 640"
definition boundaryHeight :: real where "boundaryHeight = 320"
definition boundaryMargin :: real where "boundaryMargin = 10"
definition boundaryStrength :: real where "boundaryStrength = 6.5"
definition cohesionRadius :: real where "cohesionRadius = 40"
definition cohesionStrength :: real where "cohesionStrength = 1.5"
definition alignmentRadius :: real where "alignmentRadius = 40"
definition alignmentStrength :: real where "alignmentStrength = 1.0"
definition avoidanceRadius :: real where "avoidanceRadius = 25"
definition avoidanceStrength :: real where "avoidanceStrength = 4.0"
definition maxFishSpeed :: real where "maxFishSpeed = 4"
definition maxFishForce :: real where "maxFishForce = 0.04"

record fish =
  position :: vector3
  velocity :: vector3
  acceleration :: vector3
  rotation_z :: jsnum

subsection \<open>The three steering forces\<close>

text \<open>
  Each force scans \<open>fishies\<close> with \<open>forEach\<close>, carrying a counter and a vector; the scan
  is a fold over the list with the pair as its state. The fish itself is in the list and is
  skipped by \<open>dist > 0\<close>.
\<close>

definition cohesion_scan :: "fish list \<Rightarrow> fish \<Rightarrow> nat \<times> vector3" where
  "cohesion_scan fishies fish =
     fold (\<lambda>other (count, sum).
             let dist = distanceTo (position fish) (position other)
             in if dist > 0 \<and> dist < cohesionRadius + (fishSize * 2)
                then (count + 1, add sum (position other))
                else (count, sum))
          fishies (0, Vector3 0 0 0)"

definition cohesion :: "fish list \<Rightarrow> fish \<Rightarrow> vector3" where
  "cohesion fishies fish =
     (let (count, sum) = cohesion_scan fishies fish
      in if count > 0 then
           let sum = divideScalar sum (real count);
               desired = sub sum (position fish);
               desired = normalize3 desired;
               desired = multiplyScalar desired maxFishSpeed;
               steer = sub desired (velocity fish);
               steer = clampScalar steer (- maxFishForce) maxFishForce
           in steer
         else sum)"

definition avoid_scan :: "fish list \<Rightarrow> fish \<Rightarrow> nat \<times> vector3" where
  "avoid_scan fishies fish =
     fold (\<lambda>other (count, steer).
             let dist = distanceTo (position fish) (position other)
             in if dist > 0 \<and> dist < avoidanceRadius
                then let diff = subVectors (position fish) (position other);
                         diff = normalize3 diff;
                         diff = divideScalar diff dist
                     in (count + 1, add steer diff)
                else (count, steer))
          fishies (0, Vector3 0 0 0)"

definition avoid :: "fish list \<Rightarrow> fish \<Rightarrow> vector3" where
  \<comment> \<open>in exact arithmetic; where rounding decides \<open>mag > 0\<close> the code follows
      \<open>avoid_fp\<close> below, of which this is the instance \<open>exact\<close>\<close>
  "avoid fishies fish =
     (let (count, steer) = avoid_scan fishies fish;
          steer = (if count > 0 then divideScalar steer (real count) else steer);
          mag = sqrt ((vec_x steer)\<^sup>2 + (vec_y steer)\<^sup>2 + (vec_z steer)\<^sup>2)
      in if mag > 0 then
           let steer = normalize3 steer;
               steer = multiplyScalar steer maxFishSpeed;
               steer = sub steer (velocity fish);
               steer = clampScalar steer (- maxFishForce) maxFishForce
           in steer
         else steer)"

definition align_scan :: "fish list \<Rightarrow> fish \<Rightarrow> nat \<times> vector3" where
  "align_scan fishies fish =
     fold (\<lambda>other (count, sum).
             let dist = distanceTo (position fish) (position other)
             in if dist > 0 \<and> dist < alignmentRadius
                then (count + 1, add sum (velocity other))
                else (count, sum))
          fishies (0, Vector3 0 0 0)"

definition align :: "fish list \<Rightarrow> fish \<Rightarrow> vector3" where
  "align fishies fish =
     (let (count, sum) = align_scan fishies fish
      in if count > 0 then
           let sum = divideScalar sum (real count);
               sum = normalize3 sum;
               sum = multiplyScalar sum maxFishSpeed;
               steer = sub sum (velocity fish);
               steer = clampScalar steer (- maxFishForce) maxFishForce
           in steer
         else sum)"

subsection \<open>The avoidance force over rounded arithmetic\<close>

text \<open>
  A double is read as the real number it denotes. The record holds JavaScript's operations
  on doubles (\<open>+\<close>, \<open>-\<close>, \<open>*\<close>, \<open>/\<close>, \<open>Math.sqrt\<close>, \<open>Math.pow\<close> with an integer
  exponent); how they round is left open. \<open>exact\<close> is the arithmetic that does not round,
  the one of the definitions above. \<open>no_underflow A v\<close> says that the six operations
  computing the magnitude of \<open>v\<close> keep the sign of their result and do not turn a
  non-zero result into zero; doubles round so unless a square underflows, which takes a
  component below \<open>1e-150\<close> in absolute value.
\<close>

record arith =
  fadd :: "real \<Rightarrow> real \<Rightarrow> real"
  fsub :: "real \<Rightarrow> real \<Rightarrow> real"
  fmul :: "real \<Rightarrow> real \<Rightarrow> real"
  fdiv :: "real \<Rightarrow> real \<Rightarrow> real"
  fsqrt :: "real \<Rightarrow> real"
  fpow :: "real \<Rightarrow> nat \<Rightarrow> real"

definition exact :: arith where
  "exact = \<lparr>fadd = (+), fsub = (-), fmul = (*), fdiv = (/), fsqrt = sqrt,
            fpow = (\<lambda>a n. a ^ n)\<rparr>"

definition no_underflow :: "arith \<Rightarrow> vector3 \<Rightarrow> bool" where
  \<comment> \<open>in computing the magnitude of \<open>v\<close>, each rounded result has the sign of the exact
      result of the same operation on the same operands, and is zero only when that is\<close>
  "no_underflow A v \<longleftrightarrow>
     (let px = fpow A (vec_x v) 2; py = fpow A (vec_y v) 2; pz = fpow A (vec_z v) 2;
          s = fadd A px py; t = fadd A s pz
      in sgn px = sgn ((vec_x v) ^ 2) \<and> sgn py = sgn ((vec_y v) ^ 2) \<and>
         sgn pz = sgn ((vec_z v) ^ 2) \<and> sgn s = sgn (px + py) \<and> sgn t = sgn (s + pz) \<and>
         sgn (fsqrt A t) = sgn (sqrt t))"

definition add_fp :: "arith \<Rightarrow> vector3 \<Rightarrow> vector3 \<Rightarrow> vector3" where
  "add_fp A u v =
     \<lparr>vec_x = fadd A (vec_x u) (vec_x v), vec_y = fadd A (vec_y u) (vec_y v),
      vec_z = fadd A (vec_z u) (vec_z v)\<rparr>"

definition sub_fp :: "arith \<Rightarrow> vector3 \<Rightarrow> vector3 \<Rightarrow> vector3" where
  "sub_fp A u v =
     \<lparr>vec_x = fsub A (vec_x u) (vec_x v), vec_y = fsub A (vec_y u) (vec_y v),
      vec_z = fsub A (vec_z u) (vec_z v)\<rparr>"

definition subVectors_fp :: "arith \<Rightarrow> vector3 \<Rightarrow> vector3 \<Rightarrow> vector3" where
  "subVectors_fp A a b =
     \<lparr>vec_x = fsub A (vec_x a) (vec_x b), vec_y = fsub A (vec_y a) (vec_y b),
      vec_z = fsub A (vec_z a) (vec_z b)\<rparr>"

definition multiplyScalar_fp :: "arith \<Rightarrow> vector3 \<Rightarrow> real \<Rightarrow> vector3" where
  "multiplyScalar_fp A v s =
     \<lparr>vec_x = fmul A (vec_x v) s, vec_y = fmul A (vec_y v) s, vec_z = fmul A (vec_z v) s\<rparr>"

definition divideScalar_fp :: "arith \<Rightarrow> vector3 \<Rightarrow> real \<Rightarrow> vector3" where
  "divideScalar_fp A v s = multiplyScalar_fp A v (fdiv A 1 s)"

definition length_fp :: "arith \<Rightarrow> vector3 \<Rightarrow> real" where
  "length_fp A v =
     fsqrt A (fadd A (fadd A (fmul A (vec_x v) (vec_x v)) (fmul A (vec_y v) (vec_y v)))
                     (fmul A (vec_z v) (vec_z v)))"

definition normalize_fp :: "arith \<Rightarrow> vector3 \<Rightarrow> vector3" where
  "normalize_fp A v = divideScalar_fp A v (if length_fp A v = 0 then 1 else length_fp A v)"

definition distanceToSquared_fp :: "arith \<Rightarrow> vector3 \<Rightarrow> vector3 \<Rightarrow> real" where
  "distanceToSquared_fp A u v =
     (let dx = fsub A (vec_x u) (vec_x v); dy = fsub A (vec_y u) (vec_y v);
          dz = fsub A (vec_z u) (vec_z v)
      in fadd A (fadd A (fmul A dx dx) (fmul A dy dy)) (fmul A dz dz))"

definition distanceTo_fp :: "arith \<Rightarrow> vector3 \<Rightarrow> vector3 \<Rightarrow> real" where
  "distanceTo_fp A u v = fsqrt A (distanceToSquared_fp A u v)"

text \<open>
  \<open>avoid\<close> once more, line by line, with every arithmetic operation taken from
  \<open>A\<close>. Comparisons, \<open>Math.max\<close> and \<open>Math.min\<close> do not round.
\<close>

definition avoid_scan_fp :: "arith \<Rightarrow> fish list \<Rightarrow> fish \<Rightarrow> nat \<times> vector3" where
  "avoid_scan_fp A fishies fish =
     fold (\<lambda>other (count, steer).
             let dist = distanceTo_fp A (position fish) (position other)
             in if dist > 0 \<and> dist < avoidanceRadius
                then let diff = subVectors_fp A (position fish) (position other);
                         diff = normalize_fp A diff;
                         diff = divideScalar_fp A diff dist
                     in (count + 1, add_fp A steer diff)
                else (count, steer))
          fishies (0, Vector3 0 0 0)"

definition avoid_fp :: "arith \<Rightarrow> fish list \<Rightarrow> fish \<Rightarrow> vector3" where
  "avoid_fp A fishies fish =
     (let (count, steer) = avoid_scan_fp A fishies fish;
          steer = (if count > 0 then divideScalar_fp A steer (real count) else steer);
          mag = fsqrt A (fadd A (fadd A (fpow A (vec_x steer) 2) (fpow A (vec_y steer) 2))
                                (fpow A (vec_z steer) 2))
      in if mag > 0 then
           let steer = normalize_fp A steer;
               steer = multiplyScalar_fp A steer maxFishSpeed;
               steer = sub_fp A steer (velocity fish);
               steer = clampScalar steer (- maxFishForce) maxFishForce
           in steer
         else steer)"

subsection \<open>One frame\<close>

definition accelerate :: "fish list \<Rightarrow> fish \<Rightarrow> vector3" where
  \<comment> \<open>the acceleration of \<open>fish\<close> once the three scaled forces have been added to it\<close>
  "accelerate fishies fish =
     (let cohesionForce = cohesion fishies fish;
          avoidanceForce = avoid fishies fish;
          alignmentForce = align fishies fish;
          cohesionForce = multiplyScalar cohesionForce cohesionStrength;
          avoidanceForce = multiplyScalar avoidanceForce avoidanceStrength;
          alignmentForce = multiplyScalar alignmentForce alignmentStrength
      in add (add (add (acceleration fish) cohesionForce) avoidanceForce) alignmentForce)"

definition heading :: "vector3 \<Rightarrow> jsnum" where
  \<comment> \<open>\<open>Math.atan(v.y / v.x) - Math.PI / 2 * Math.sign(v.x)\<close>\<close>
  "heading v = js_minus (js_atan (js_divide (vec_y v) (vec_x v))) (pi / 2 * sgn (vec_x v))"

definition wrap :: "vector3 \<Rightarrow> vector3" where
  \<comment> \<open>"If the fish just crossed a boundary, move them to the opposite side."\<close>
  "wrap p =
     (let p = (if vec_x p > boundaryWidth \<or> vec_x p < - boundaryWidth
               then p\<lparr>vec_x := vec_x p * (- 1)\<rparr> else p);
          p = (if vec_y p > boundaryHeight \<or> vec_y p < - boundaryHeight
               then p\<lparr>vec_y := vec_y p * (- 1)\<rparr> else p)
      in p)"

definition update_fish :: "fish list \<Rightarrow> fish \<Rightarrow> fish" where
  \<comment> \<open>the body of the \<open>forEach\<close> callback of \<open>render\<close>\<close>
  "update_fish fishies fish =
     (let acc = accelerate fishies fish;
          vel = add (velocity fish) acc;
          vel = clampScalar vel (- maxFishSpeed) maxFishSpeed;
          pos = add (position fish) vel;
          rot = heading vel;
          acc = multiplyScalar acc 0;
          pos = wrap pos
      in \<lparr>position = pos, velocity = vel, acceleration = acc, rotation_z = rot\<rparr>)"

definition render_order :: "nat list \<Rightarrow> fish list \<Rightarrow> fish list" where
  \<comment> \<open>the callback applied to the fish at the given indices, one after the other, each
      seeing the list as the earlier ones left it\<close>
  "render_order order fishies =
     fold (\<lambda>i fs. fs[i := update_fish fs (fs ! i)]) order fishies"

definition render :: "fish list \<Rightarrow> fish list" where
  \<comment> \<open>\<open>fishies.forEach\<close>: the indices in ascending order\<close>
  "render fishies = render_order [0..<length fishies] fishies"

subsection \<open>The same forces with every division checked\<close>

text \<open>
  JavaScript never raises on a division, so the model above divides with HOL's total
  division. To state which divisions can meet a zero divisor, the forces are written a
  second time with the two dividing library methods returning a fault in that case. The
  control flow is that of \<open>cohesion\<close>, \<open>avoid\<close> and \<open>align\<close> line by line.
\<close>

datatype fault = DivisionByZero

definition divideScalar_chk :: "vector3 \<Rightarrow> real \<Rightarrow> fault + vector3" where
  "divideScalar_chk v s = (if s = 0 then Inl DivisionByZero else Inr (multiplyScalar v (1 / s)))"

definition normalize_chk :: "vector3 \<Rightarrow> fault + vector3" where
  "normalize_chk v = divideScalar_chk v (if length3 v = 0 then 1 else length3 v)"

definition cohesion_chk :: "fish list \<Rightarrow> fish \<Rightarrow> fault + vector3" where
  "cohesion_chk fishies fish =
     (let (count, sum) = cohesion_scan fishies fish
      in if count > 0 then
           (case divideScalar_chk sum (real count) of
              Inl e \<Rightarrow> Inl e
            | Inr sum \<Rightarrow>
                (case normalize_chk (sub sum (position fish)) of
                   Inl e \<Rightarrow> Inl e
                 | Inr desired \<Rightarrow>
                     Inr (clampScalar (sub (multiplyScalar desired maxFishSpeed) (velocity fish))
                            (- maxFishForce) maxFishForce)))
         else Inr sum)"

definition avoid_scan_chk :: "fish list \<Rightarrow> fish \<Rightarrow> fault + nat \<times> vector3" where
  "avoid_scan_chk fishies fish =
     fold (\<lambda>other state.
             case state of
               Inl e \<Rightarrow> Inl e
             | Inr (count, steer) \<Rightarrow>
                 let dist = distanceTo (position fish) (position other)
                 in if dist > 0 \<and> dist < avoidanceRadius
                    then (case normalize_chk (subVectors (position fish) (position other)) of
                            Inl e \<Rightarrow> Inl e
                          | Inr diff \<Rightarrow>
                              (case divideScalar_chk diff dist of
                                 Inl e \<Rightarrow> Inl e
                               | Inr diff \<Rightarrow> Inr (count + 1, add steer diff)))
                    else Inr (count, steer))
          fishies (Inr (0, Vector3 0 0 0))"

definition avoid_chk :: "fish list \<Rightarrow> fish \<Rightarrow> fault + vector3" where
  "avoid_chk fishies fish =
     (case avoid_scan_chk fishies fish of
        Inl e \<Rightarrow> Inl e
      | Inr (count, steer) \<Rightarrow>
          (case (if count > 0 then divideScalar_chk steer (real count) else Inr steer) of
             Inl e \<Rightarrow> Inl e
           | Inr steer \<Rightarrow>
               let mag = sqrt ((vec_x steer)\<^sup>2 + (vec_y steer)\<^sup>2 + (vec_z steer)\<^sup>2)
               in if mag > 0 then
                    (case normalize_chk steer of
                       Inl e \<Rightarrow> Inl e
                     | Inr steer \<Rightarrow>
                         Inr (clampScalar (sub (multiplyScalar steer maxFishSpeed) (velocity fish))
                                (- maxFishForce) maxFishForce))
                  else Inr steer))"

definition align_chk :: "fish list \<Rightarrow> fish \<Rightarrow> fault + vector3" where
  "align_chk fishies fish =
     (let (count, sum) = align_scan fishies fish
      in if count > 0 then
           (case divideScalar_chk sum (real count) of
              Inl e \<Rightarrow> Inl e
            | Inr sum \<Rightarrow>
                (case normalize_chk sum of
                   Inl e \<Rightarrow> Inl e
                 | Inr sum \<Rightarrow>
                     Inr (clampScalar (sub (multiplyScalar sum maxFishSpeed) (velocity fish))
                            (- maxFishForce) maxFishForce)))
         else Inr sum)"

definition cohesion_desired :: "fish list \<Rightarrow> fish \<Rightarrow> vector3" where
  \<comment> \<open>the vector \<open>desired\<close> on which \<open>cohesion\<close> calls \<open>normalize\<close> when \<open>count > 0\<close>\<close>
  "cohesion_desired fishies fish =
     (let (count, sum) = cohesion_scan fishies fish
      in sub (divideScalar sum (real count)) (position fish))"

text \<open>
  \<open>avoid\<close> a third time, with \<open>normalize\<close> stripped of its fallback: it divides by the
  length itself, so that a call on a vector of length zero is a fault. And the update of a
  fish's position, velocity and acceleration on top of the checked forces.
\<close>

definition normalize_strict :: "vector3 \<Rightarrow> fault + vector3" where
  "normalize_strict v = divideScalar_chk v (length3 v)"

definition avoid_scan_strict :: "fish list \<Rightarrow> fish \<Rightarrow> fault + nat \<times> vector3" where
  "avoid_scan_strict fishies fish =
     fold (\<lambda>other state.
             case state of
               Inl e \<Rightarrow> Inl e
             | Inr (count, steer) \<Rightarrow>
                 let dist = distanceTo (position fish) (position other)
                 in if dist > 0 \<and> dist < avoidanceRadius
                    then (case normalize_strict (subVectors (position fish) (position other)) of
                            Inl e \<Rightarrow> Inl e
                          | Inr diff \<Rightarrow>
                              (case divideScalar_chk diff dist of
                                 Inl e \<Rightarrow> Inl e
                               | Inr diff \<Rightarrow> Inr (count + 1, add steer diff)))
                    else Inr (count, steer))
          fishies (Inr (0, Vector3 0 0 0))"

definition avoid_strict :: "fish list \<Rightarrow> fish \<Rightarrow> fault + vector3" where
  "avoid_strict fishies fish =
     (case avoid_scan_strict fishies fish of
        Inl e \<Rightarrow> Inl e
      | Inr (count, steer) \<Rightarrow>
          (case (if count > 0 then divideScalar_chk steer (real count) else Inr steer) of
             Inl e \<Rightarrow> Inl e
           | Inr steer \<Rightarrow>
               let mag = sqrt ((vec_x steer)\<^sup>2 + (vec_y steer)\<^sup>2 + (vec_z steer)\<^sup>2)
               in if mag > 0 then
                    (case normalize_strict steer of
                       Inl e \<Rightarrow> Inl e
                     | Inr steer \<Rightarrow>
                         Inr (clampScalar (sub (multiplyScalar steer maxFishSpeed) (velocity fish))
                                (- maxFishForce) maxFishForce))
                  else Inr steer))"

definition update_chk :: "fish list \<Rightarrow> fish \<Rightarrow> fault + vector3 \<times> vector3 \<times> vector3" where
  "update_chk fishies fish =
     (case cohesion_chk fishies fish of
        Inl e \<Rightarrow> Inl e
      | Inr cohesionForce \<Rightarrow>
     (case avoid_chk fishies fish of
        Inl e \<Rightarrow> Inl e
      | Inr avoidanceForce \<Rightarrow>
     (case align_chk fishies fish of
        Inl e \<Rightarrow> Inl e
      | Inr alignmentForce \<Rightarrow>
          let cohesionForce = multiplyScalar cohesionForce cohesionStrength;
              avoidanceForce = multiplyScalar avoidanceForce avoidanceStrength;
              alignmentForce = multiplyScalar alignmentForce alignmentStrength;
              acc = add (add (add (acceleration fish) cohesionForce) avoidanceForce)
                        alignmentForce;
              vel = add (velocity fish) acc;
              vel = clampScalar vel (- maxFishSpeed) maxFishSpeed;
              pos = add (position fish) vel;
              acc = multiplyScalar acc 0;
              pos = wrap pos
          in Inr (pos, vel, acc))))"

definition align_mean :: "fish list \<Rightarrow> fish \<Rightarrow> vector3" where
  \<comment> \<open>the vector \<open>sum\<close> on which \<open>align\<close> calls \<open>normalize\<close> when \<open>count > 0\<close>\<close>
  "align_mean fishies fish =
     (let (count, sum) = align_scan fishies fish in divideScalar sum (real count))"

subsection \<open>The forces as the specification words them\<close>

definition in_range :: "real \<Rightarrow> fish \<Rightarrow> fish \<Rightarrow> bool" where
  "in_range radius a b \<longleftrightarrow>
     0 < distanceTo (position a) (position b) \<and> distanceTo (position a) (position b) < radius"

definition sum_vectors :: "vector3 list \<Rightarrow> vector3" where
  "sum_vectors vs =
     \<lparr>vec_x = sum_list (map vec_x vs), vec_y = sum_list (map vec_y vs),
      vec_z = sum_list (map vec_z vs)\<rparr>"

definition bounded_by :: "real \<Rightarrow> vector3 \<Rightarrow> bool" where
  "bounded_by m v \<longleftrightarrow> \<bar>vec_x v\<bar> \<le> m \<and> \<bar>vec_y v\<bar> \<le> m \<and> \<bar>vec_z v\<bar> \<le> m"



definition away :: "fish \<Rightarrow> fish \<Rightarrow> vector3" where
  \<comment> \<open>\<open>normalize(a.position - b.position) / distance(a, b)\<close>\<close>
  "away a b =
     divideScalar (normalize3 (sub (position a) (position b)))
                  (distanceTo (position a) (position b))"

definition in_range_fp :: "arith \<Rightarrow> real \<Rightarrow> fish \<Rightarrow> fish \<Rightarrow> bool" where
  "in_range_fp A radius a b \<longleftrightarrow>
     0 < distanceTo_fp A (position a) (position b) \<and>
     distanceTo_fp A (position a) (position b) < radius"

definition away_fp :: "arith \<Rightarrow> fish \<Rightarrow> fish \<Rightarrow> vector3" where
  \<comment> \<open>\<open>normalize(a.position - b.position) / distance(a, b)\<close>\<close>
  "away_fp A a b =
     divideScalar_fp A (normalize_fp A (sub_fp A (position a) (position b)))
                       (distanceTo_fp A (position a) (position b))"

definition magnitude_fp :: "arith \<Rightarrow> vector3 \<Rightarrow> real" where
  \<comment> \<open>the Euclidean magnitude, as \<open>Math.sqrt\<close> of the sum of the \<open>Math.pow(c, 2)\<close>\<close>
  "magnitude_fp A v =
     fsqrt A (fadd A (fadd A (fpow A (vec_x v) 2) (fpow A (vec_y v) 2)) (fpow A (vec_z v) 2))"

definition avoid_average :: "arith \<Rightarrow> fish list \<Rightarrow> fish \<Rightarrow> vector3" where
  \<comment> \<open>the \<open>away\<close> vectors of the agents in range, accumulated in list order and
      divided by their number\<close>
  "avoid_average A fishies a =
     (let included = filter (in_range_fp A avoidanceRadius a) fishies;
          total = foldl (add_fp A) (Vector3 0 0 0) (map (away_fp A a) included)
      in if included \<noteq> [] then divideScalar_fp A total (real (length included)) else total)"

definition avoid_spec :: "arith \<Rightarrow> fish list \<Rightarrow> fish \<Rightarrow> vector3" where
  "avoid_spec A fishies a =
     (let averaged = avoid_average A fishies a
      in if 0 < magnitude_fp A averaged
         then clampScalar
                (sub_fp A (multiplyScalar_fp A (normalize_fp A averaged) maxFishSpeed) (velocity a))
                (- maxFishForce) maxFishForce
         else averaged)"

definition render_snapshot :: "fish list \<Rightarrow> fish list" where
  \<comment> \<open>a frame in which every fish is advanced from the flock as it was before the frame\<close>
  "render_snapshot fishies = map (update_fish fishies) fishies"

subsection \<open>Some fish\<close>

definition edge_fish :: fish where
  \<comment> \<open>a fish as \<open>newFish\<close> makes it: integer position, unit velocity (angle 0)\<close>
  "edge_fish = \<lparr>position = Vector3 639 0 0, velocity = Vector3 1 0 0,
                acceleration = Vector3 0 0 0, rotation_z = Finite (- (pi / 2))\<rparr>"

definition swimmer :: fish where
  "swimmer = \<lparr>position = Vector3 0 0 0, velocity = Vector3 4 0 0,
              acceleration = Vector3 0 0 0, rotation_z = Finite 0\<rparr>"

definition bystander :: fish where
  "bystander = \<lparr>position = Vector3 56 0 0, velocity = Vector3 0 0 0,
                acceleration = Vector3 0 0 0, rotation_z = Finite 0\<rparr>"

definition still_fish :: fish where
  "still_fish = \<lparr>position = Vector3 0 0 0, velocity = Vector3 0 0 0,
                 acceleration = Vector3 0 0 0, rotation_z = Finite 0\<rparr>"

definition left_fish :: fish where
  "left_fish = \<lparr>position = Vector3 (- 10) 0 0, velocity = Vector3 0 0 0,
                acceleration = Vector3 0 0 0, rotation_z = Finite 0\<rparr>"

definition right_fish :: fish where
  "right_fish = \<lparr>position = Vector3 10 0 0, velocity = Vector3 0 0 0,
                 acceleration = Vector3 0 0 0, rotation_z = Finite 0\<rparr>"

definition east_fish :: fish where
  "east_fish = \<lparr>position = Vector3 (- 10) 0 0, velocity = Vector3 1 0 0,
                acceleration = Vector3 0 0 0, rotation_z = Finite (- (pi / 2))\<rparr>"

definition west_fish :: fish where
  "west_fish = \<lparr>position = Vector3 10 0 0, velocity = Vector3 (- 1) 0 0,
                acceleration = Vector3 0 0 0, rotation_z = Finite (pi / 2)\<rparr>"

definition diagonal_fish :: fish where
  "diagonal_fish = \<lparr>position = Vector3 0 0 0, velocity = Vector3 9 9 0,
                    acceleration = Vector3 0 0 0, rotation_z = Finite 0\<rparr>"

section \<open>Auxiliary facts\<close>

subsection \<open>Vectors\<close>

lemma add_zero_right [simp]: "add v (Vector3 0 0 0) = v"
  by (simp add: add_def Vector3_def)

lemma distanceTo_self [simp]: "distanceTo p p = 0"
  by (simp add: distanceTo_def distanceToSquared_def)

lemma distanceTo_x:
  "distanceTo \<lparr>vec_x = a, vec_y = b, vec_z = c\<rparr> \<lparr>vec_x = a', vec_y = b, vec_z = c\<rparr> = \<bar>a - a'\<bar>"
  by (simp add: distanceTo_def distanceToSquared_def Let_def)


lemma length3_axis: "length3 \<lparr>vec_x = a, vec_y = 0, vec_z = 0\<rparr> = \<bar>a\<bar>"
  by (simp add: length3_def)

lemma length3_pos_iff:
  "0 < length3 v \<longleftrightarrow> 0 < (vec_x v)\<^sup>2 + (vec_y v)\<^sup>2 + (vec_z v)\<^sup>2"
  by (simp add: length3_def power2_eq_square)

lemma mag_zero:
  assumes "\<not> 0 < (vec_x v)\<^sup>2 + (vec_y v)\<^sup>2 + (vec_z v)\<^sup>2"
  shows "v = Vector3 0 0 0"
proof -
  from assms have "(vec_x v)\<^sup>2 + (vec_y v)\<^sup>2 + (vec_z v)\<^sup>2 \<le> 0" by simp
  moreover have "0 \<le> (vec_x v)\<^sup>2" "0 \<le> (vec_y v)\<^sup>2" "0 \<le> (vec_z v)\<^sup>2" by simp_all
  ultimately have "(vec_x v)\<^sup>2 = 0" "(vec_y v)\<^sup>2 = 0" "(vec_z v)\<^sup>2 = 0" by linarith+
  then show ?thesis by (simp add: Vector3_def)
qed

lemma sqrt32: "sqrt 32 = 4 * sqrt 2"
proof -
  have "sqrt 32 = sqrt (4\<^sup>2 * 2)" by simp
  also have "\<dots> = 4 * sqrt 2" by (simp only: real_sqrt_mult real_sqrt_abs)
  finally show ?thesis .
qed

lemma bounded_by_zero: "0 \<le> m \<Longrightarrow> bounded_by m (Vector3 0 0 0)"
  by (simp add: bounded_by_def Vector3_def)

lemma bounded_by_clamp: "0 \<le> m \<Longrightarrow> bounded_by m (clampScalar v (- m) m)"
  by (auto simp add: bounded_by_def clampScalar_def)

lemma clampScalar_id: "bounded_by m v \<Longrightarrow> clampScalar v (- m) m = v"
  by (simp add: bounded_by_def clampScalar_def abs_le_iff min_def max_def)

lemma not_in_range_self [simp]: "\<not> in_range r a a"
  by (simp add: in_range_def)

lemmas radii = cohesionRadius_def fishSize_def avoidanceRadius_def alignmentRadius_def

subsection \<open>The scans in closed form\<close>

lemma sum_vectors_Nil [simp]: "sum_vectors [] = Vector3 0 0 0"
  by (simp add: sum_vectors_def Vector3_def)

lemma sum_vectors_Cons: "add s (sum_vectors (v # vs)) = add (add s v) (sum_vectors vs)"
  by (simp add: sum_vectors_def add_def)

lemma scan_fold:
  "fold (\<lambda>other (count, sum).
           let dist = d other
           in if dist > 0 \<and> dist < R then (count + 1, add sum (g other)) else (count, sum))
        fl (c, s)
   = (c + length (filter (\<lambda>b. 0 < d b \<and> d b < R) fl),
      add s (sum_vectors (map g (filter (\<lambda>b. 0 < d b \<and> d b < R) fl))))"
  by (induction fl arbitrary: c s) (simp_all add: Let_def sum_vectors_Cons)

lemma cohesion_scan_eq:
  "cohesion_scan fishies fish =
     (length (filter (in_range (cohesionRadius + fishSize * 2) fish) fishies),
      sum_vectors (map position (filter (in_range (cohesionRadius + fishSize * 2) fish) fishies)))"
proof -
  have "cohesion_scan fishies fish =
     (0 + length (filter (\<lambda>b. 0 < distanceTo (position fish) (position b)
                            \<and> distanceTo (position fish) (position b) < cohesionRadius + fishSize * 2) fishies),
      add (Vector3 0 0 0) (sum_vectors (map position (filter (\<lambda>b. 0 < distanceTo (position fish) (position b)
                            \<and> distanceTo (position fish) (position b) < cohesionRadius + fishSize * 2) fishies))))"
    unfolding cohesion_scan_def by (rule scan_fold)
  then show ?thesis
    by (simp add: in_range_def [abs_def] add_def Vector3_def)
qed

lemma align_scan_eq:
  "align_scan fishies fish =
     (length (filter (in_range alignmentRadius fish) fishies),
      sum_vectors (map velocity (filter (in_range alignmentRadius fish) fishies)))"
proof -
  have "align_scan fishies fish =
     (0 + length (filter (\<lambda>b. 0 < distanceTo (position fish) (position b)
                            \<and> distanceTo (position fish) (position b) < alignmentRadius) fishies),
      add (Vector3 0 0 0) (sum_vectors (map velocity (filter (\<lambda>b. 0 < distanceTo (position fish) (position b)
                            \<and> distanceTo (position fish) (position b) < alignmentRadius) fishies))))"
    unfolding align_scan_def by (rule scan_fold)
  then show ?thesis
    by (simp add: in_range_def [abs_def] add_def Vector3_def)
qed

lemma avoid_fold:
  "fold (\<lambda>other (count, steer).
             let dist = distanceTo (position fish) (position other)
             in if dist > 0 \<and> dist < avoidanceRadius
                then let diff = subVectors (position fish) (position other);
                         diff = normalize3 diff;
                         diff = divideScalar diff dist
                     in (count + 1, add steer diff)
                else (count, steer)) fl (c, s)
   = (c + length (filter (in_range avoidanceRadius fish) fl),
      add s (sum_vectors (map (away fish) (filter (in_range avoidanceRadius fish) fl))))"
  by (induction fl arbitrary: c s)
     (simp_all add: Let_def sum_vectors_Cons in_range_def away_def subVectors_def sub_def)

lemma avoid_scan_eq:
  "avoid_scan fishies fish =
     (length (filter (in_range avoidanceRadius fish) fishies),
      sum_vectors (map (away fish) (filter (in_range avoidanceRadius fish) fishies)))"
  unfolding avoid_scan_def by (simp add: avoid_fold add_def Vector3_def)

subsection \<open>The forces\<close>


lemma cohesion_normalizes_desired:
  "cohesion fishies fish =
     (if fst (cohesion_scan fishies fish) > 0
      then clampScalar
             (sub (multiplyScalar (normalize3 (cohesion_desired fishies fish)) maxFishSpeed)
                  (velocity fish))
             (- maxFishForce) maxFishForce
      else snd (cohesion_scan fishies fish))"
  by (cases "cohesion_scan fishies fish") (simp add: cohesion_def cohesion_desired_def)

lemma cohesion_bounded: "bounded_by maxFishForce (cohesion fishies fish)"
proof -
  have m: "0 \<le> maxFishForce" by (simp add: maxFishForce_def)
  show ?thesis
    using bounded_by_zero [OF m] bounded_by_clamp [OF m]
    by (simp add: cohesion_def cohesion_scan_eq Let_def)
qed

lemma align_bounded: "bounded_by maxFishForce (align fishies fish)"
proof -
  have m: "0 \<le> maxFishForce" by (simp add: maxFishForce_def)
  show ?thesis
    using bounded_by_zero [OF m] bounded_by_clamp [OF m]
    by (simp add: align_def align_scan_eq Let_def)
qed

lemma avoid_bounded: "bounded_by maxFishForce (avoid fishies fish)"
proof -
  have m: "0 \<le> maxFishForce" by (simp add: maxFishForce_def)
  show ?thesis
    using bounded_by_zero [OF m] bounded_by_clamp [OF m]
    by (auto simp add: avoid_def Let_def split: prod.splits dest!: mag_zero)
qed

lemma forces_no_neighbours:
  "filter (in_range (cohesionRadius + fishSize * 2) fish) fishies = [] \<Longrightarrow>
     cohesion fishies fish = Vector3 0 0 0"
  "filter (in_range avoidanceRadius fish) fishies = [] \<Longrightarrow> avoid fishies fish = Vector3 0 0 0"
  "filter (in_range alignmentRadius fish) fishies = [] \<Longrightarrow> align fishies fish = Vector3 0 0 0"
  by (simp_all add: cohesion_def avoid_def align_def cohesion_scan_eq avoid_scan_eq align_scan_eq
        Vector3_def)

lemma accelerate_no_forces:
  "cohesion fishies fish = Vector3 0 0 0 \<Longrightarrow> avoid fishies fish = Vector3 0 0 0 \<Longrightarrow>
   align fishies fish = Vector3 0 0 0 \<Longrightarrow> accelerate fishies fish = acceleration fish"
  by (simp add: accelerate_def Let_def multiplyScalar_def add_def Vector3_def)

lemma scaled_sum_bound:
  fixes a b c m :: real
  assumes "\<bar>a\<bar> \<le> m" "\<bar>b\<bar> \<le> m" "\<bar>c\<bar> \<le> m"
  shows "\<bar>0 + a * cohesionStrength + b * avoidanceStrength + c * alignmentStrength\<bar>
           \<le> (cohesionStrength + avoidanceStrength + alignmentStrength) * m"
proof -
  have "\<bar>a * (3 / 2) + b * 4 + c\<bar> \<le> (13 / 2) * m"
    using assms by linarith
  then show ?thesis
    by (simp add: cohesionStrength_def avoidanceStrength_def alignmentStrength_def)
qed

lemma accelerate_bounded:
  assumes "acceleration fish = Vector3 0 0 0"
  shows "bounded_by ((cohesionStrength + avoidanceStrength + alignmentStrength) * maxFishForce)
           (accelerate fishies fish)"
proof -
  have c: "bounded_by maxFishForce (cohesion fishies fish)" by (rule cohesion_bounded)
  have a: "bounded_by maxFishForce (avoid fishies fish)" by (rule avoid_bounded)
  have l: "bounded_by maxFishForce (align fishies fish)" by (rule align_bounded)
  have acc: "accelerate fishies fish =
      \<lparr>vec_x = 0 + vec_x (cohesion fishies fish) * cohesionStrength
                 + vec_x (avoid fishies fish) * avoidanceStrength
                 + vec_x (align fishies fish) * alignmentStrength,
       vec_y = 0 + vec_y (cohesion fishies fish) * cohesionStrength
                 + vec_y (avoid fishies fish) * avoidanceStrength
                 + vec_y (align fishies fish) * alignmentStrength,
       vec_z = 0 + vec_z (cohesion fishies fish) * cohesionStrength
                 + vec_z (avoid fishies fish) * avoidanceStrength
                 + vec_z (align fishies fish) * alignmentStrength\<rparr>"
    using assms by (simp add: accelerate_def Let_def add_def multiplyScalar_def Vector3_def)
  show ?thesis
    using c a l unfolding acc bounded_by_def
    by (simp only: vector3.simps scaled_sum_bound simp_thms)
qed

subsection \<open>The avoidance force over rounded arithmetic\<close>

lemma avoid_fold_fp:
  "fold (\<lambda>other (count, steer).
             let dist = distanceTo_fp A (position fish) (position other)
             in if dist > 0 \<and> dist < avoidanceRadius
                then let diff = subVectors_fp A (position fish) (position other);
                         diff = normalize_fp A diff;
                         diff = divideScalar_fp A diff dist
                     in (count + 1, add_fp A steer diff)
                else (count, steer)) fl (c, s)
   = (c + length (filter (in_range_fp A avoidanceRadius fish) fl),
      foldl (add_fp A) s (map (away_fp A fish) (filter (in_range_fp A avoidanceRadius fish) fl)))"
  by (induction fl arbitrary: c s)
     (simp_all add: Let_def in_range_fp_def away_fp_def subVectors_fp_def sub_fp_def)

lemma avoid_scan_fp_eq:
  "avoid_scan_fp A fishies fish =
     (length (filter (in_range_fp A avoidanceRadius fish) fishies),
      foldl (add_fp A) (Vector3 0 0 0)
        (map (away_fp A fish) (filter (in_range_fp A avoidanceRadius fish) fishies)))"
  unfolding avoid_scan_fp_def by (simp add: avoid_fold_fp)

lemma avoid_fp_refines: "avoid_fp A fishies fish = avoid_spec A fishies fish"
  by (simp add: avoid_fp_def avoid_spec_def avoid_average_def avoid_scan_fp_eq Let_def
        magnitude_fp_def)

lemma sgn_pos_transfer:
  fixes a b :: real
  assumes "sgn a = sgn b"
  shows "0 < a \<longleftrightarrow> 0 < b" "a = 0 \<longleftrightarrow> b = 0"
  using assms by (auto simp add: sgn_if split: if_splits)

lemma magnitude_fp_zero:
  assumes "no_underflow A v" and "\<not> 0 < magnitude_fp A v"
  shows "v = Vector3 0 0 0"
proof -
  let ?px = "fpow A (vec_x v) 2" and ?py = "fpow A (vec_y v) 2" and ?pz = "fpow A (vec_z v) 2"
  let ?s = "fadd A ?px ?py"
  let ?t = "fadd A ?s ?pz"
  have sx: "sgn ?px = sgn ((vec_x v) ^ 2)" and sy: "sgn ?py = sgn ((vec_y v) ^ 2)"
    and sz: "sgn ?pz = sgn ((vec_z v) ^ 2)" and ss: "sgn ?s = sgn (?px + ?py)"
    and st: "sgn ?t = sgn (?s + ?pz)" and sr: "sgn (fsqrt A ?t) = sgn (sqrt ?t)"
    using assms(1) by (simp_all add: no_underflow_def Let_def)
  have nx: "0 \<le> ?px" "?px = 0 \<longleftrightarrow> vec_x v = 0"
    using sgn_pos_transfer [OF sx] by (auto simp add: not_less [symmetric])
  have ny: "0 \<le> ?py" "?py = 0 \<longleftrightarrow> vec_y v = 0"
    using sgn_pos_transfer [OF sy] by (auto simp add: not_less [symmetric])
  have nz: "0 \<le> ?pz" "?pz = 0 \<longleftrightarrow> vec_z v = 0"
    using sgn_pos_transfer [OF sz] by (auto simp add: not_less [symmetric])
  have ns: "0 \<le> ?s" "?s = 0 \<longleftrightarrow> ?px + ?py = 0"
    using sgn_pos_transfer [OF ss] nx(1) ny(1) by (auto simp add: not_less [symmetric])
  have "\<not> 0 < fsqrt A ?t"
    using assms(2) by (simp add: magnitude_fp_def)
  then have "\<not> 0 < sqrt ?t"
    using sgn_pos_transfer(1) [OF sr] by simp
  then have "\<not> 0 < ?t" by simp
  then have "\<not> 0 < ?s + ?pz"
    using sgn_pos_transfer(1) [OF st] by simp
  with ns(1) nz(1) have "?s = 0" "?pz = 0" by linarith+
  with ns(2) nx(1) ny(1) have "?px = 0" "?py = 0" by linarith+
  with nx(2) ny(2) nz(2) \<open>?pz = 0\<close> show ?thesis
    by (simp add: Vector3_def)
qed

lemma exact_ops:
  "add_fp exact = add" "sub_fp exact = sub" "subVectors_fp exact = subVectors"
  "multiplyScalar_fp exact = multiplyScalar" "divideScalar_fp exact = divideScalar"
  "length_fp exact = length3" "normalize_fp exact = normalize3"
  "distanceTo_fp exact = distanceTo"
  by (simp_all add: fun_eq_iff exact_def add_fp_def add_def sub_fp_def sub_def
        subVectors_fp_def subVectors_def multiplyScalar_fp_def multiplyScalar_def
        divideScalar_fp_def divideScalar_def length_fp_def length3_def normalize_fp_def
        normalize3_def distanceTo_fp_def distanceTo_def distanceToSquared_fp_def
        distanceToSquared_def)

lemma exact_fields:
  "fadd exact = (+)" "fsqrt exact = sqrt" "fpow exact = (\<lambda>a n. a ^ n)"
  by (simp_all add: exact_def)

lemma avoid_fp_exact: "avoid_fp exact fishies fish = avoid fishies fish"
  unfolding avoid_fp_def avoid_def avoid_scan_fp_def avoid_scan_def exact_ops exact_fields
  by (rule refl)

lemma no_underflow_exact: "no_underflow exact v"
  by (simp add: no_underflow_def exact_def)

lemma in_range_fp_exact: "in_range_fp exact = in_range"
  by (simp add: fun_eq_iff in_range_fp_def in_range_def exact_ops)

lemma away_fp_exact: "away_fp exact = away"
  by (simp add: fun_eq_iff away_fp_def away_def exact_ops)

subsection \<open>One fish, one frame\<close>

lemma wrap_eq:
  "wrap p = \<lparr>vec_x = (if \<bar>vec_x p\<bar> > boundaryWidth then - vec_x p else vec_x p),
             vec_y = (if \<bar>vec_y p\<bar> > boundaryHeight then - vec_y p else vec_y p),
             vec_z = vec_z p\<rparr>"
  by (simp add: wrap_def Let_def boundaryWidth_def boundaryHeight_def abs_if)

lemma wrap_abs:
  "\<bar>vec_x (wrap p)\<bar> = \<bar>vec_x p\<bar>" "\<bar>vec_y (wrap p)\<bar> = \<bar>vec_y p\<bar>"
  by (simp_all add: wrap_eq)

lemma position_update_fish:
  "position (update_fish fishies fish) =
     wrap (add (position fish) (velocity (update_fish fishies fish)))"
  by (simp add: update_fish_def Let_def)

lemma velocity_update_fish:
  "velocity (update_fish fishies fish) =
     clampScalar (add (velocity fish) (accelerate fishies fish)) (- maxFishSpeed) maxFishSpeed"
  by (simp add: update_fish_def Let_def)

lemma acceleration_update_fish:
  "acceleration (update_fish fishies fish) = Vector3 0 0 0"
  by (simp add: update_fish_def Let_def multiplyScalar_def Vector3_def)

lemma rotation_update_fish:
  "rotation_z (update_fish fishies fish) = heading (velocity (update_fish fishies fish))"
  by (simp add: update_fish_def Let_def)

lemma velocity_bounded: "bounded_by maxFishSpeed (velocity (update_fish fishies fish))"
proof -
  have "0 \<le> maxFishSpeed" by (simp add: maxFishSpeed_def)
  then show ?thesis by (simp add: velocity_update_fish bounded_by_clamp)
qed

lemma update_fish_position_abs:
  "\<bar>vec_x (position (update_fish fishies fish))\<bar> =
     \<bar>vec_x (position fish) + vec_x (velocity (update_fish fishies fish))\<bar>"
  "\<bar>vec_y (position (update_fish fishies fish))\<bar> =
     \<bar>vec_y (position fish) + vec_y (velocity (update_fish fishies fish))\<bar>"
  by (simp_all add: position_update_fish wrap_abs) (simp_all add: add_def)

lemma update_fish_position_bound:
  "\<bar>vec_x (position fish)\<bar> \<le> w \<Longrightarrow>
     \<bar>vec_x (position (update_fish fishies fish))\<bar> \<le> w + maxFishSpeed"
  "\<bar>vec_y (position fish)\<bar> \<le> h \<Longrightarrow>
     \<bar>vec_y (position (update_fish fishies fish))\<bar> \<le> h + maxFishSpeed"
  using velocity_bounded [of fishies fish]
  by (simp_all add: update_fish_position_abs bounded_by_def) linarith+

lemma update_fish_no_neighbours:
  assumes "filter (in_range (cohesionRadius + fishSize * 2) fish) fishies = []"
    and "filter (in_range avoidanceRadius fish) fishies = []"
    and "filter (in_range alignmentRadius fish) fishies = []"
    and "acceleration fish = Vector3 0 0 0"
  shows "velocity (update_fish fishies fish) =
           clampScalar (velocity fish) (- maxFishSpeed) maxFishSpeed"
  using assms
  by (simp add: velocity_update_fish accelerate_no_forces forces_no_neighbours)

lemma update_fish_alone:
  "acceleration f = Vector3 0 0 0 \<Longrightarrow>
   velocity (update_fish [f] f) = clampScalar (velocity f) (- maxFishSpeed) maxFishSpeed"
  by (rule update_fish_no_neighbours) simp_all

subsection \<open>The loop over the flock\<close>

lemma length_render_order [simp]: "length (render_order order fishies) = length fishies"
  unfolding render_order_def by (induction order arbitrary: fishies) simp_all

lemma render_order_snoc:
  "render_order (order @ [i]) fishies =
     (let fs = render_order order fishies in fs[i := update_fish fs (fs ! i)])"
  by (simp add: render_order_def Let_def)

lemma render_order_untouched:
  "i \<notin> set order \<Longrightarrow> render_order order fishies ! i = fishies ! i"
  unfolding render_order_def
  by (induction order arbitrary: fishies) simp_all

lemma render_upto_done:
  "i < k \<Longrightarrow> k \<le> length fishies \<Longrightarrow>
   render_order [0..<k] fishies ! i =
     update_fish (render_order [0..<i] fishies) (fishies ! i)"
proof (induction k)
  case 0
  then show ?case by simp
next
  case (Suc k)
  show ?case
  proof (cases "i = k")
    case True
    have "render_order [0..<k] fishies ! k = fishies ! k"
      by (rule render_order_untouched) simp
    with True Suc.prems show ?thesis
      by (simp add: render_order_snoc Let_def)
  next
    case False
    with Suc show ?thesis
      by (simp add: render_order_snoc Let_def)
  qed
qed

lemma render_prefix:
  assumes "i \<le> length fishies"
  shows "render_order [0..<i] fishies = take i (render fishies) @ drop i fishies"
proof (rule nth_equalityI)
  show "length (render_order [0..<i] fishies) = length (take i (render fishies) @ drop i fishies)"
    using assms by (simp add: render_def)
next
  fix j assume "j < length (render_order [0..<i] fishies)"
  then have j: "j < length fishies" by simp
  show "render_order [0..<i] fishies ! j = (take i (render fishies) @ drop i fishies) ! j"
  proof (cases "j < i")
    case True
    then have "render_order [0..<i] fishies ! j =
        update_fish (render_order [0..<j] fishies) (fishies ! j)"
      using assms by (simp add: render_upto_done)
    also have "\<dots> = render fishies ! j"
      using j by (simp add: render_def render_upto_done)
    finally show ?thesis using True assms by (simp add: nth_append render_def)
  next
    case False
    then have "render_order [0..<i] fishies ! j = fishies ! j"
      by (intro render_order_untouched) simp
    then show ?thesis using False assms j by (simp add: nth_append render_def)
  qed
qed

lemma render_nth:
  "i < length fishies \<Longrightarrow>
   render fishies ! i = update_fish (take i (render fishies) @ drop i fishies) (fishies ! i)"
  using render_upto_done [of i "length fishies" fishies] render_prefix [of i fishies]
  by (simp add: render_def)

lemma render_single: "render [f] = [update_fish [f] f]"
  by (simp add: render_def render_order_def)

lemma render_order_pair:
  "render_order [0, 1] [a, b] = [update_fish [a, b] a, update_fish [update_fish [a, b] a, b] b]"
  "render_order [1, 0] [a, b] = [update_fish [a, update_fish [a, b] b] a, update_fish [a, b] b]"
  by (simp_all add: render_order_def)

lemma render_pair: "render [a, b] = render_order [0, 1] [a, b]"
  by (simp add: render_def upt_rec)

lemma lone_fish_keeps_velocity:
  "acceleration f = Vector3 0 0 0 \<Longrightarrow> bounded_by maxFishSpeed (velocity f) \<Longrightarrow>
   map velocity ((render ^^ n) [f]) = [velocity f]"
proof (induction n arbitrary: f)
  case 0
  show ?case by simp
next
  case (Suc n)
  let ?g = "update_fish [f] f"
  have v: "velocity ?g = velocity f"
    using Suc.prems by (simp add: update_fish_alone clampScalar_id)
  have "map velocity ((render ^^ n) [?g]) = [velocity ?g]"
    using Suc.prems by (intro Suc.IH) (simp_all add: acceleration_update_fish v)
  then show ?case
    by (simp add: funpow_swap1 render_single v)
qed

subsection \<open>The checked forces never fault\<close>

lemma divideScalar_chk_ok: "s \<noteq> 0 \<Longrightarrow> divideScalar_chk v s = Inr (divideScalar v s)"
  by (simp add: divideScalar_chk_def divideScalar_def)

lemma normalize_chk_ok: "normalize_chk v = Inr (normalize3 v)"
  by (simp add: normalize_chk_def normalize3_def divideScalar_chk_ok)

lemma cohesion_chk_ok: "cohesion_chk fishies fish = Inr (cohesion fishies fish)"
proof (cases "cohesion_scan fishies fish")
  case (Pair count sum)
  then show ?thesis
    by (cases "count > 0")
       (simp_all add: cohesion_chk_def cohesion_def divideScalar_chk_ok normalize_chk_ok)
qed

lemma align_chk_ok: "align_chk fishies fish = Inr (align fishies fish)"
proof (cases "align_scan fishies fish")
  case (Pair count sum)
  then show ?thesis
    by (cases "count > 0")
       (simp_all add: align_chk_def align_def divideScalar_chk_ok normalize_chk_ok)
qed

lemma avoid_fold_chk:
  "fold (\<lambda>other state.
             case state of
               Inl e \<Rightarrow> Inl e
             | Inr (count, steer) \<Rightarrow>
                 let dist = distanceTo (position fish) (position other)
                 in if dist > 0 \<and> dist < avoidanceRadius
                    then (case normalize_chk (subVectors (position fish) (position other)) of
                            Inl e \<Rightarrow> Inl e
                          | Inr diff \<Rightarrow>
                              (case divideScalar_chk diff dist of
                                 Inl e \<Rightarrow> Inl e
                               | Inr diff \<Rightarrow> Inr (count + 1, add steer diff)))
                    else Inr (count, steer))
          fl (Inr (c, s))
   = Inr (fold (\<lambda>other (count, steer).
             let dist = distanceTo (position fish) (position other)
             in if dist > 0 \<and> dist < avoidanceRadius
                then let diff = subVectors (position fish) (position other);
                         diff = normalize3 diff;
                         diff = divideScalar diff dist
                     in (count + 1, add steer diff)
                else (count, steer)) fl (c, s))"
  by (induction fl arbitrary: c s)
     (simp_all add: Let_def normalize_chk_ok divideScalar_chk_ok)

lemma avoid_scan_chk_ok: "avoid_scan_chk fishies fish = Inr (avoid_scan fishies fish)"
  unfolding avoid_scan_chk_def avoid_scan_def by (rule avoid_fold_chk)

lemma avoid_chk_ok: "avoid_chk fishies fish = Inr (avoid fishies fish)"
proof (cases "avoid_scan fishies fish")
  case (Pair count steer)
  then show ?thesis
    by (cases "count > 0")
       (simp_all add: avoid_chk_def avoid_def avoid_scan_chk_ok divideScalar_chk_ok
          normalize_chk_ok Let_def)
qed

lemma length3_subVectors: "length3 (subVectors p q) = distanceTo p q"
  by (simp add: length3_def subVectors_def distanceTo_def distanceToSquared_def Let_def)

lemma normalize_strict_ok: "length3 v \<noteq> 0 \<Longrightarrow> normalize_strict v = Inr (normalize3 v)"
  by (simp add: normalize_strict_def normalize3_def divideScalar_chk_ok)

lemma avoid_fold_strict:
  "fold (\<lambda>other state.
             case state of
               Inl e \<Rightarrow> Inl e
             | Inr (count, steer) \<Rightarrow>
                 let dist = distanceTo (position fish) (position other)
                 in if dist > 0 \<and> dist < avoidanceRadius
                    then (case normalize_strict (subVectors (position fish) (position other)) of
                            Inl e \<Rightarrow> Inl e
                          | Inr diff \<Rightarrow>
                              (case divideScalar_chk diff dist of
                                 Inl e \<Rightarrow> Inl e
                               | Inr diff \<Rightarrow> Inr (count + 1, add steer diff)))
                    else Inr (count, steer))
          fl (Inr (c, s))
   = Inr (fold (\<lambda>other (count, steer).
             let dist = distanceTo (position fish) (position other)
             in if dist > 0 \<and> dist < avoidanceRadius
                then let diff = subVectors (position fish) (position other);
                         diff = normalize3 diff;
                         diff = divideScalar diff dist
                     in (count + 1, add steer diff)
                else (count, steer)) fl (c, s))"
  by (induction fl arbitrary: c s)
     (simp_all add: Let_def normalize_strict_ok length3_subVectors divideScalar_chk_ok)

lemma avoid_scan_strict_ok: "avoid_scan_strict fishies fish = Inr (avoid_scan fishies fish)"
  unfolding avoid_scan_strict_def avoid_scan_def by (rule avoid_fold_strict)

lemma normalize_strict_mag:
  "0 < (vec_x v)\<^sup>2 + (vec_y v)\<^sup>2 + (vec_z v)\<^sup>2 \<Longrightarrow>
   normalize_strict v = Inr (normalize3 v)"
  using length3_pos_iff [of v] by (simp add: normalize_strict_ok)

lemma avoid_strict_ok: "avoid_strict fishies fish = Inr (avoid fishies fish)"
proof (cases "avoid_scan fishies fish")
  case (Pair count steer)
  then show ?thesis
    by (cases "count > 0")
       (simp_all add: avoid_strict_def avoid_def avoid_scan_strict_ok divideScalar_chk_ok
          normalize_strict_mag Let_def)
qed

lemma update_chk_ok:
  "update_chk fishies fish =
     Inr (position (update_fish fishies fish), velocity (update_fish fishies fish),
          acceleration (update_fish fishies fish))"
  by (simp add: update_chk_def cohesion_chk_ok avoid_chk_ok align_chk_ok update_fish_def
        accelerate_def Let_def)

subsection \<open>Frames worked out on the example fish\<close>

lemma lone_fish_update:
  assumes "acceleration f = Vector3 0 0 0" and "bounded_by maxFishSpeed (velocity f)"
  shows "update_fish [f] f =
           \<lparr>position = wrap (add (position f) (velocity f)), velocity = velocity f,
            acceleration = Vector3 0 0 0, rotation_z = heading (velocity f)\<rparr>"
proof -
  have v: "velocity (update_fish [f] f) = velocity f"
    using assms by (simp add: update_fish_alone clampScalar_id)
  show ?thesis
    using v position_update_fish [of "[f]" f] rotation_update_fish [of "[f]" f]
      acceleration_update_fish [of "[f]" f]
    by (cases "update_fish [f] f") simp
qed

lemma edge_fish_first_frame:
  "render [edge_fish] =
     [\<lparr>position = Vector3 640 0 0, velocity = Vector3 1 0 0,
       acceleration = Vector3 0 0 0, rotation_z = Finite (- (pi / 2))\<rparr>]"
proof -
  have "update_fish [edge_fish] edge_fish =
     \<lparr>position = wrap (add (position edge_fish) (velocity edge_fish)),
      velocity = velocity edge_fish,
      acceleration = Vector3 0 0 0, rotation_z = heading (velocity edge_fish)\<rparr>"
    by (rule lone_fish_update)
       (simp_all add: edge_fish_def bounded_by_def Vector3_def maxFishSpeed_def)
  then show ?thesis
    by (simp add: render_single)
       (simp add: edge_fish_def Vector3_def add_def wrap_def Let_def boundaryWidth_def
          boundaryHeight_def heading_def js_divide_def)
qed

lemma edge_fish_second_frame:
  "(render ^^ 2) [edge_fish] =
     [\<lparr>position = Vector3 (- 641) 0 0, velocity = Vector3 1 0 0,
       acceleration = Vector3 0 0 0, rotation_z = Finite (- (pi / 2))\<rparr>]"
  (is "_ = [?h]")
proof -
  let ?g = "\<lparr>position = Vector3 640 0 0, velocity = Vector3 1 0 0,
            acceleration = Vector3 0 0 0, rotation_z = Finite (- (pi / 2))\<rparr>"
  have "update_fish [?g] ?g =
     \<lparr>position = wrap (add (position ?g) (velocity ?g)), velocity = velocity ?g,
      acceleration = Vector3 0 0 0, rotation_z = heading (velocity ?g)\<rparr>"
    by (rule lone_fish_update)
       (simp_all add: bounded_by_def Vector3_def maxFishSpeed_def)
  then have "render [?g] = [?h]"
    by (simp add: render_single)
       (simp add: Vector3_def add_def wrap_def Let_def boundaryWidth_def
          boundaryHeight_def heading_def js_divide_def)
  then show ?thesis
    by (simp add: numeral_2_eq_2 edge_fish_first_frame)
qed

lemma swimmer_moves:
  "update_fish [swimmer, bystander] swimmer =
     \<lparr>position = Vector3 4 0 0, velocity = Vector3 4 0 0,
      acceleration = Vector3 0 0 0, rotation_z = Finite (- (pi / 2))\<rparr>"
proof -
  have v: "velocity (update_fish [swimmer, bystander] swimmer) = Vector3 4 0 0"
    by (subst update_fish_no_neighbours)
       (simp_all add: in_range_def swimmer_def bystander_def Vector3_def distanceTo_x radii
          clampScalar_def maxFishSpeed_def)
  have p: "position (update_fish [swimmer, bystander] swimmer) = Vector3 4 0 0"
    by (simp add: position_update_fish v)
       (simp add: swimmer_def Vector3_def add_def wrap_def Let_def boundaryWidth_def
          boundaryHeight_def)
  have r: "rotation_z (update_fish [swimmer, bystander] swimmer) = Finite (- (pi / 2))"
    by (simp add: rotation_update_fish v)
       (simp add: heading_def Vector3_def js_divide_def)
  show ?thesis
    using v p r acceleration_update_fish [of "[swimmer, bystander]" swimmer]
    by (cases "update_fish [swimmer, bystander] swimmer") simp
qed

lemma bystander_stays:
  "position (update_fish [swimmer, bystander] bystander) = Vector3 56 0 0"
proof -
  have v: "velocity (update_fish [swimmer, bystander] bystander) = Vector3 0 0 0"
    by (subst update_fish_no_neighbours)
       (simp_all add: in_range_def swimmer_def bystander_def Vector3_def distanceTo_x radii
          clampScalar_def maxFishSpeed_def)
  show ?thesis
    by (simp add: position_update_fish v)
       (simp add: bystander_def Vector3_def add_def wrap_def Let_def boundaryWidth_def
          boundaryHeight_def)
qed

lemma bystander_pulled:
  "position (update_fish
      [\<lparr>position = Vector3 4 0 0, velocity = Vector3 4 0 0,
        acceleration = Vector3 0 0 0, rotation_z = Finite (- (pi / 2))\<rparr>, bystander] bystander)
   = Vector3 55.94 0 0"
  (is "position (update_fish ?fs _) = _")
proof -
  have c: "cohesion ?fs bystander = Vector3 (- 0.04) 0 0"
    by (simp add: cohesion_def cohesion_scan_eq in_range_def bystander_def Vector3_def
          distanceTo_x radii Let_def divideScalar_def multiplyScalar_def sub_def normalize3_def
          length3_axis sum_vectors_def clampScalar_def maxFishSpeed_def maxFishForce_def)
  have a: "avoid ?fs bystander = Vector3 0 0 0"
    by (rule forces_no_neighbours)
       (simp add: in_range_def bystander_def Vector3_def distanceTo_x radii)
  have l: "align ?fs bystander = Vector3 0 0 0"
    by (rule forces_no_neighbours)
       (simp add: in_range_def bystander_def Vector3_def distanceTo_x radii)
  have acc: "accelerate ?fs bystander = Vector3 (- 0.06) 0 0"
    by (simp add: accelerate_def c a l Let_def)
       (simp add: Vector3_def multiplyScalar_def add_def bystander_def cohesionStrength_def)
  have v: "velocity (update_fish ?fs bystander) = Vector3 (- 0.06) 0 0"
    by (simp add: velocity_update_fish acc)
       (simp add: bystander_def Vector3_def add_def clampScalar_def maxFishSpeed_def)
  show ?thesis
    by (simp add: position_update_fish v)
       (simp add: bystander_def Vector3_def add_def wrap_def Let_def boundaryWidth_def
          boundaryHeight_def)
qed

lemma avoid_pushes_left:
  "avoid [still_fish, right_fish] still_fish = Vector3 (- 0.04) 0 0"
  by (simp add: avoid_def avoid_scan_eq in_range_def still_fish_def right_fish_def Vector3_def
        distanceTo_x radii Let_def away_def divideScalar_def multiplyScalar_def sub_def
        normalize3_def length3_axis sum_vectors_def clampScalar_def maxFishSpeed_def
        maxFishForce_def)

lemma balanced_average:
  "filter (in_range_fp exact avoidanceRadius still_fish) [still_fish, left_fish, right_fish]
     = [left_fish, right_fish]"
  "avoid_average exact [still_fish, left_fish, right_fish] still_fish = Vector3 0 0 0"
proof -
  show f: "filter (in_range_fp exact avoidanceRadius still_fish)
        [still_fish, left_fish, right_fish] = [left_fish, right_fish]"
    by (simp add: in_range_fp_exact in_range_def still_fish_def left_fish_def right_fish_def
          Vector3_def distanceTo_x radii)
  show "avoid_average exact [still_fish, left_fish, right_fish] still_fish = Vector3 0 0 0"
    unfolding avoid_average_def f away_fp_exact exact_ops
    by (simp add: away_def still_fish_def left_fish_def right_fish_def Vector3_def distanceTo_x
          sub_def normalize3_def length3_axis divideScalar_def multiplyScalar_def add_def)
qed

lemma cohesion_meets_zero:
  "0 < fst (cohesion_scan [still_fish, left_fish, right_fish] still_fish)"
  "length3 (cohesion_desired [still_fish, left_fish, right_fish] still_fish) = 0"
proof -
  have s: "cohesion_scan [still_fish, left_fish, right_fish] still_fish = (2, Vector3 0 0 0)"
    by (simp add: cohesion_scan_eq in_range_def still_fish_def left_fish_def right_fish_def
          Vector3_def distanceTo_x radii sum_vectors_def)
  show "0 < fst (cohesion_scan [still_fish, left_fish, right_fish] still_fish)"
    by (simp add: s)
  show "length3 (cohesion_desired [still_fish, left_fish, right_fish] still_fish) = 0"
    by (simp add: cohesion_desired_def s)
       (simp add: still_fish_def Vector3_def divideScalar_def multiplyScalar_def sub_def
          length3_def)
qed

lemma align_normalizes_mean:
  "align fishies fish =
     (if fst (align_scan fishies fish) > 0
      then clampScalar
             (sub (multiplyScalar (normalize3 (align_mean fishies fish)) maxFishSpeed)
                  (velocity fish))
             (- maxFishForce) maxFishForce
      else snd (align_scan fishies fish))"
  by (cases "align_scan fishies fish") (simp add: align_def align_mean_def)

lemma align_meets_zero:
  "0 < fst (align_scan [still_fish, east_fish, west_fish] still_fish)"
  "length3 (align_mean [still_fish, east_fish, west_fish] still_fish) = 0"
proof -
  have s: "align_scan [still_fish, east_fish, west_fish] still_fish = (2, Vector3 0 0 0)"
    by (simp add: align_scan_eq in_range_def still_fish_def east_fish_def west_fish_def
          Vector3_def distanceTo_x radii sum_vectors_def)
  show "0 < fst (align_scan [still_fish, east_fish, west_fish] still_fish)"
    by (simp add: s)
  show "length3 (align_mean [still_fish, east_fish, west_fish] still_fish) = 0"
    by (simp add: align_mean_def s)
       (simp add: Vector3_def divideScalar_def multiplyScalar_def length3_def)
qed

section \<open>The claims\<close>

subsection \<open>C1: the position after the boundary wrap\<close>

text \<open>
  Claim C1, as the code has it. The wrap only negates a coordinate, so right after it each
  coordinate of a fish has the absolute value it had after the integration step
  (\<open>position + velocity\<close>): a coordinate that stepped past the boundary is still outside
  the rectangle. A fish that starts the frame with \<open>|position.x| \<le> boundaryWidth\<close> ends it
  with \<open>|position.x| \<le> boundaryWidth + maxFishSpeed\<close>, and likewise for \<open>y\<close> with
  \<open>boundaryHeight\<close>.
\<close>

theorem position_after_wrap:
  assumes "i < length fishies"
  shows "\<bar>vec_x (position (render fishies ! i))\<bar> =
           \<bar>vec_x (position (fishies ! i)) + vec_x (velocity (render fishies ! i))\<bar> \<and>
         \<bar>vec_y (position (render fishies ! i))\<bar> =
           \<bar>vec_y (position (fishies ! i)) + vec_y (velocity (render fishies ! i))\<bar> \<and>
         (\<bar>vec_x (position (fishies ! i))\<bar> \<le> boundaryWidth \<longrightarrow>
            \<bar>vec_x (position (render fishies ! i))\<bar> \<le> boundaryWidth + maxFishSpeed) \<and>
         (\<bar>vec_y (position (fishies ! i))\<bar> \<le> boundaryHeight \<longrightarrow>
            \<bar>vec_y (position (render fishies ! i))\<bar> \<le> boundaryHeight + maxFishSpeed)"
proof -
  let ?seen = "take i (render fishies) @ drop i fishies"
  have r: "render fishies ! i = update_fish ?seen (fishies ! i)"
    using assms by (rule render_nth)
  show ?thesis
    unfolding r
    using update_fish_position_abs [of ?seen "fishies ! i"]
      update_fish_position_bound [of "fishies ! i" _ ?seen]
    by blast
qed

theorem position_after_wrap_witness:
  "0 < length [edge_fish] \<and>
   \<bar>vec_x (position ([edge_fish] ! 0))\<bar> \<le> boundaryWidth \<and>
   \<bar>vec_y (position ([edge_fish] ! 0))\<bar> \<le> boundaryHeight \<and>
   \<bar>vec_x (position (render [edge_fish] ! 0))\<bar> \<le> boundaryWidth + maxFishSpeed \<and>
   \<bar>vec_y (position (render [edge_fish] ! 0))\<bar> \<le> boundaryHeight + maxFishSpeed"
  using position_after_wrap [of 0 "[edge_fish]"]
  by (simp add: edge_fish_def Vector3_def boundaryWidth_def boundaryHeight_def)

text \<open>
  The claim as stated fails. A lone fish that starts at \<open>x = 639\<close> with velocity
  \<open>(1, 0)\<close> is at \<open>x = 640\<close> after the first frame and at \<open>x = -641\<close> after the
  second, outside \<open>[-640, 640]\<close>.
\<close>

theorem wrap_leaves_rectangle:
  "vec_x (position (render [edge_fish] ! 0)) = 640 \<and>
   vec_x (position ((render ^^ 2) [edge_fish] ! 0)) = - 641 \<and>
   \<not> \<bar>vec_x (position ((render ^^ 2) [edge_fish] ! 0))\<bar> \<le> boundaryWidth"
  by (simp only: edge_fish_first_frame edge_fish_second_frame)
     (simp add: Vector3_def boundaryWidth_def)

subsection \<open>C2: the order of the fish within a frame\<close>

text \<open>
  Claim C2, as the code has it. A frame handles the fish one after the other in list order:
  the fish at index \<open>i\<close> is advanced from the list in which the fish before \<open>i\<close> already
  have their new position and velocity and the fish from \<open>i\<close> on still have their old
  ones.
\<close>

theorem render_sequential:
  assumes "i < length fishies"
  shows "render fishies ! i =
           update_fish (take i (render fishies) @ drop i fishies) (fishies ! i)"
  using assms by (rule render_nth)

theorem render_sequential_witness:
  "1 < length [swimmer, bystander] \<and>
   render [swimmer, bystander] ! 1 =
     update_fish (take 1 (render [swimmer, bystander]) @ drop 1 [swimmer, bystander])
       ([swimmer, bystander] ! 1)"
  using render_sequential [of 1 "[swimmer, bystander]"] by simp

text \<open>
  The claim as stated fails. The swimmer starts 56 away from the bystander, out of every
  radius, and swims to 52 away, inside the cohesion radius. Handled first, as \<open>render\<close>
  does, it pulls the bystander to \<open>x = 55.94\<close>; handled second, or with every fish advanced
  from the flock as it was before the frame, the bystander stays at \<open>x = 56\<close>.
\<close>

theorem render_order_dependent:
  "position (render [swimmer, bystander] ! 1) = Vector3 55.94 0 0 \<and>
   position (render_order [1, 0] [swimmer, bystander] ! 1) = Vector3 56 0 0 \<and>
   position (render_snapshot [swimmer, bystander] ! 1) = Vector3 56 0 0"
  unfolding render_pair render_order_pair render_snapshot_def swimmer_moves
  by (simp add: bystander_pulled bystander_stays)

subsection \<open>C3: the velocity clamp\<close>

text \<open>
  Claim C3. After a frame the velocity of every fish is bounded componentwise:
  \<open>|velocity.x| \<le> maxFishSpeed\<close> and \<open>|velocity.y| \<le> maxFishSpeed\<close>. The clamp is
  per component, not on the magnitude.
\<close>

theorem velocity_clamped:
  "\<forall>f\<in>set (render fishies).
     \<bar>vec_x (velocity f)\<bar> \<le> maxFishSpeed \<and> \<bar>vec_y (velocity f)\<bar> \<le> maxFishSpeed"
proof
  fix f assume "f \<in> set (render fishies)"
  then obtain i where i: "i < length fishies" and f: "f = render fishies ! i"
    by (auto simp add: in_set_conv_nth render_def)
  have "f = update_fish (take i (render fishies) @ drop i fishies) (fishies ! i)"
    using i f by (simp add: render_nth)
  then have "bounded_by maxFishSpeed (velocity f)"
    by (simp add: velocity_bounded)
  then show "\<bar>vec_x (velocity f)\<bar> \<le> maxFishSpeed \<and> \<bar>vec_y (velocity f)\<bar> \<le> maxFishSpeed"
    by (simp add: bounded_by_def)
qed

text \<open>
  A lone fish with velocity \<open>(9, 9)\<close> leaves the frame with velocity \<open>(4, 4)\<close>: each
  component is within the bound and the speed is \<open>maxFishSpeed * sqrt 2\<close>.
\<close>

theorem velocity_clamped_witness:
  "render [diagonal_fish] ! 0 \<in> set (render [diagonal_fish]) \<and>
   \<bar>vec_x (velocity (render [diagonal_fish] ! 0))\<bar> \<le> maxFishSpeed \<and>
   \<bar>vec_y (velocity (render [diagonal_fish] ! 0))\<bar> \<le> maxFishSpeed \<and>
   velocity (render [diagonal_fish] ! 0) = Vector3 4 4 0 \<and>
   length3 (velocity (render [diagonal_fish] ! 0)) = maxFishSpeed * sqrt 2"
proof -
  have v: "velocity (update_fish [diagonal_fish] diagonal_fish) = Vector3 4 4 0"
    by (simp add: update_fish_alone diagonal_fish_def)
       (simp add: clampScalar_def maxFishSpeed_def Vector3_def)
  have m: "render [diagonal_fish] ! 0 \<in> set (render [diagonal_fish])"
    by (simp add: render_single)
  have l: "length3 (Vector3 4 4 0) = maxFishSpeed * sqrt 2"
    by (simp add: length3_def Vector3_def maxFishSpeed_def sqrt32)
  show ?thesis
    using velocity_clamped [of "[diagonal_fish]"] m l
    by (simp add: render_single v)
qed

subsection \<open>C4: the cohesion force\<close>


subsection \<open>C5: the avoidance force\<close>

text \<open>
  Claim C5. Whatever the rounding of the arithmetic, the avoidance force on a fish
  accumulates \<open>normalize(position - b.position) / distance\<close> over the fish \<open>b\<close> with
  \<open>0 < distance < avoidanceRadius\<close> and divides the sum by their number. If the averaged
  vector has positive magnitude it is normalized, scaled to \<open>maxFishSpeed\<close>, the velocity is
  subtracted and the result clamped componentwise to \<open>\<plusminus>maxFishForce\<close>; if its magnitude
  is not positive it is returned as it is, unclamped, and it is the zero vector (provided
  no square underflows in computing that magnitude).
\<close>

theorem avoid_force_spec:
  "avoid_fp A fishies fish = avoid_spec A fishies fish \<and>
   (\<not> 0 < magnitude_fp A (avoid_average A fishies fish) \<longrightarrow>
      avoid_fp A fishies fish = avoid_average A fishies fish \<and>
      (no_underflow A (avoid_average A fishies fish) \<longrightarrow>
         avoid_fp A fishies fish = Vector3 0 0 0))"
proof -
  have r: "avoid_fp A fishies fish = avoid_spec A fishies fish"
    by (rule avoid_fp_refines)
  have u: "avoid_fp A fishies fish = avoid_average A fishies fish"
    if "\<not> 0 < magnitude_fp A (avoid_average A fishies fish)"
    using that by (simp add: r avoid_spec_def)
  have z: "avoid_average A fishies fish = Vector3 0 0 0"
    if "\<not> 0 < magnitude_fp A (avoid_average A fishies fish)"
      and "no_underflow A (avoid_average A fishies fish)"
    using that by (intro magnitude_fp_zero)
  show ?thesis
    using r u z by auto
qed

text \<open>
  In exact arithmetic a fish midway between two others, 10 away on either side, has both
  in range and an average of magnitude zero: its avoidance force is the zero vector. With
  one of them only, the force is \<open>(-0.04, 0, 0)\<close>.
\<close>

theorem avoid_force_spec_witness:
  "no_underflow exact (avoid_average exact [still_fish, left_fish, right_fish] still_fish) \<and>
   filter (in_range_fp exact avoidanceRadius still_fish) [still_fish, left_fish, right_fish]
     = [left_fish, right_fish] \<and>
   \<not> 0 < magnitude_fp exact (avoid_average exact [still_fish, left_fish, right_fish] still_fish) \<and>
   avoid_fp exact [still_fish, left_fish, right_fish] still_fish = Vector3 0 0 0 \<and>
   avoid_fp exact [still_fish, right_fish] still_fish = Vector3 (- 0.04) 0 0"
proof -
  have m: "\<not> 0 < magnitude_fp exact
      (avoid_average exact [still_fish, left_fish, right_fish] still_fish)"
    by (simp add: balanced_average) (simp add: magnitude_fp_def exact_def Vector3_def)
  have n: "no_underflow exact
      (avoid_average exact [still_fish, left_fish, right_fish] still_fish)"
    by (rule no_underflow_exact)
  from avoid_force_spec [of exact "[still_fish, left_fish, right_fish]" still_fish] m n
  have "avoid_fp exact [still_fish, left_fish, right_fish] still_fish = Vector3 0 0 0"
    by blast
  with m n balanced_average(1) show ?thesis
    by (simp only: avoid_fp_exact avoid_pushes_left simp_thms)
qed

subsection \<open>C6: the boundary wrap is a negation\<close>

text \<open>
  Claim C6. The wrap negates \<open>position.x\<close> when \<open>|position.x| > boundaryWidth\<close>, negates
  \<open>position.y\<close> when \<open>|position.y| > boundaryHeight\<close>, and changes nothing else; it is the
  last step of a fish's update, applied to \<open>position + velocity\<close>. A fish at
  \<open>x = boundaryWidth + 1\<close> before the wrap is at \<open>x = -(boundaryWidth + 1)\<close> after it.
\<close>

theorem boundary_wrap_negates:
  "wrap p = \<lparr>vec_x = (if \<bar>vec_x p\<bar> > boundaryWidth then - vec_x p else vec_x p),
             vec_y = (if \<bar>vec_y p\<bar> > boundaryHeight then - vec_y p else vec_y p),
             vec_z = vec_z p\<rparr> \<and>
   position (update_fish fishies fish) =
     wrap (add (position fish) (velocity (update_fish fishies fish))) \<and>
   vec_x (wrap (Vector3 (boundaryWidth + 1) b c)) = - (boundaryWidth + 1)"
  by (simp add: wrap_eq [of p] position_update_fish)
     (simp add: wrap_eq Vector3_def boundaryWidth_def)

subsection \<open>C7: which divisions are guarded\<close>

text \<open>
  Claim C7, as the code has it. With every division checked, the three forces and the
  update of a fish's position, velocity and acceleration built on them always return the
  value the code computes: no division by the neighbour count, by the distance or inside
  \<open>normalize\<close> (which divides by 1 when the length is zero) meets a zero divisor. In
  \<open>avoid\<close> every call of \<open>normalize\<close> is on a vector of non-zero length, so that even
  without the fallback to 1 it would not fault. \<open>cohesion\<close> and \<open>align\<close> call
  \<open>normalize\<close> with no magnitude check before it and can hand it the zero vector:
  \<open>cohesion\<close> for a fish midway between two neighbours, \<open>align\<close> for a fish whose two
  neighbours have opposite velocities.
\<close>

theorem forces_total:
  "cohesion_chk fishies fish = Inr (cohesion fishies fish) \<and>
   avoid_chk fishies fish = Inr (avoid fishies fish) \<and>
   align_chk fishies fish = Inr (align fishies fish) \<and>
   update_chk fishies fish =
     Inr (position (update_fish fishies fish), velocity (update_fish fishies fish),
          acceleration (update_fish fishies fish)) \<and>
   avoid_strict fishies fish = Inr (avoid fishies fish) \<and>
   0 < fst (cohesion_scan [still_fish, left_fish, right_fish] still_fish) \<and>
   length3 (cohesion_desired [still_fish, left_fish, right_fish] still_fish) = 0 \<and>
   0 < fst (align_scan [still_fish, east_fish, west_fish] still_fish) \<and>
   length3 (align_mean [still_fish, east_fish, west_fish] still_fish) = 0"
  by (simp only: cohesion_chk_ok avoid_chk_ok align_chk_ok update_chk_ok avoid_strict_ok
        cohesion_meets_zero align_meets_zero simp_thms)

text \<open>
  The claim as stated fails twice. The rotation divides \<open>velocity.y\<close> by \<open>velocity.x\<close> with
  no guard: a fish at rest gets the rotation \<open>NaN\<close>. And \<open>cohesion\<close> hands \<open>normalize\<close> a
  zero vector, with no magnitude check before the call, when the neighbours' mean position
  is the fish's own.
\<close>

theorem unguarded_operations:
  "rotation_z (render [still_fish] ! 0) = NaN \<and>
   0 < fst (cohesion_scan [still_fish, left_fish, right_fish] still_fish) \<and>
   length3 (cohesion_desired [still_fish, left_fish, right_fish] still_fish) = 0"
proof -
  have v: "velocity (update_fish [still_fish] still_fish) = Vector3 0 0 0"
    by (simp add: update_fish_alone still_fish_def)
       (simp add: clampScalar_def maxFishSpeed_def Vector3_def)
  have r: "rotation_z (render [still_fish] ! 0) = NaN"
    by (simp add: render_single rotation_update_fish v)
       (simp add: heading_def Vector3_def js_divide_def)
  have s: "cohesion_scan [still_fish, left_fish, right_fish] still_fish = (2, Vector3 0 0 0)"
    by (simp add: cohesion_scan_eq in_range_def still_fish_def left_fish_def right_fish_def
          Vector3_def distanceTo_x radii sum_vectors_def)
  have d: "length3 (cohesion_desired [still_fish, left_fish, right_fish] still_fish) = 0"
    by (simp add: cohesion_desired_def s)
       (simp add: still_fish_def Vector3_def divideScalar_def multiplyScalar_def sub_def
          length3_def)
  show ?thesis using r s d by simp
qed

subsection \<open>C8: a fish without neighbours\<close>

text \<open>
  Claim C8. For a fish with no other fish inside any of the three radii the cohesion,
  avoidance and alignment forces are the zero vector; with its acceleration at zero, as every
  frame leaves it, its velocity changes only by the clamp and stays as it is when already
  within \<open>\<plusminus>maxFishSpeed\<close>, so that the fish moves by its velocity and is then wrapped. In a
  flock of one fish the three forces are zero whatever the fish, and such a fish keeps its
  velocity over any number of frames.
\<close>

theorem zero_neighbour_forces:
  assumes "\<forall>b\<in>set fishies. \<not> in_range (cohesionRadius + fishSize * 2) fish b"
    and "\<forall>b\<in>set fishies. \<not> in_range avoidanceRadius fish b"
    and "\<forall>b\<in>set fishies. \<not> in_range alignmentRadius fish b"
  shows "cohesion fishies fish = Vector3 0 0 0 \<and> avoid fishies fish = Vector3 0 0 0 \<and>
         align fishies fish = Vector3 0 0 0 \<and>
         (acceleration fish = Vector3 0 0 0 \<longrightarrow>
            velocity (update_fish fishies fish) =
              clampScalar (velocity fish) (- maxFishSpeed) maxFishSpeed \<and>
            (bounded_by maxFishSpeed (velocity fish) \<longrightarrow>
               velocity (update_fish fishies fish) = velocity fish \<and>
               position (update_fish fishies fish) = wrap (add (position fish) (velocity fish)))) \<and>
         cohesion [fish] fish = Vector3 0 0 0 \<and> avoid [fish] fish = Vector3 0 0 0 \<and>
         align [fish] fish = Vector3 0 0 0 \<and> render [fish] = [update_fish [fish] fish] \<and>
         (acceleration fish = Vector3 0 0 0 \<and> bounded_by maxFishSpeed (velocity fish) \<longrightarrow>
            map velocity ((render ^^ n) [fish]) = [velocity fish])"
proof -
  have c: "cohesion fishies fish = Vector3 0 0 0"
    using assms(1) by (intro forces_no_neighbours) (simp add: filter_empty_conv)
  have a: "avoid fishies fish = Vector3 0 0 0"
    using assms(2) by (intro forces_no_neighbours) (simp add: filter_empty_conv)
  have l: "align fishies fish = Vector3 0 0 0"
    using assms(3) by (intro forces_no_neighbours) (simp add: filter_empty_conv)
  have acc: "accelerate fishies fish = acceleration fish"
    using c a l by (rule accelerate_no_forces)
  have single: "cohesion [fish] fish = Vector3 0 0 0" "avoid [fish] fish = Vector3 0 0 0"
    "align [fish] fish = Vector3 0 0 0"
    by (simp_all add: forces_no_neighbours)
  show ?thesis
    using c a l single
    by (simp add: velocity_update_fish position_update_fish acc clampScalar_id render_single
          lone_fish_keeps_velocity)
qed

theorem zero_neighbour_forces_witness:
  "\<not> in_range (cohesionRadius + fishSize * 2) swimmer swimmer \<and>
   \<not> in_range (cohesionRadius + fishSize * 2) swimmer bystander \<and>
   \<not> in_range avoidanceRadius swimmer bystander \<and>
   \<not> in_range alignmentRadius swimmer bystander \<and>
   acceleration swimmer = Vector3 0 0 0 \<and>
   bounded_by maxFishSpeed (velocity swimmer) \<and>
   cohesion [swimmer, bystander] swimmer = Vector3 0 0 0 \<and>
   avoid [swimmer, bystander] swimmer = Vector3 0 0 0 \<and>
   align [swimmer, bystander] swimmer = Vector3 0 0 0 \<and>
   velocity (update_fish [swimmer, bystander] swimmer) = velocity swimmer \<and>
   position (update_fish [swimmer, bystander] swimmer) =
     wrap (add (position swimmer) (velocity swimmer))"
proof -
  have far: "\<not> in_range r swimmer bystander" if "r \<le> 56" for r
    using that by (simp add: in_range_def swimmer_def bystander_def Vector3_def distanceTo_x)
  have acc: "acceleration swimmer = Vector3 0 0 0"
    by (simp add: swimmer_def)
  have b: "bounded_by maxFishSpeed (velocity swimmer)"
    by (simp add: bounded_by_def swimmer_def Vector3_def maxFishSpeed_def)
  have h: "\<forall>b\<in>set [swimmer, bystander]. \<not> in_range (cohesionRadius + fishSize * 2) swimmer b"
    "\<forall>b\<in>set [swimmer, bystander]. \<not> in_range avoidanceRadius swimmer b"
    "\<forall>b\<in>set [swimmer, bystander]. \<not> in_range alignmentRadius swimmer b"
    by (simp_all add: far radii)
  from zero_neighbour_forces [OF h] acc b
  have "cohesion [swimmer, bystander] swimmer = Vector3 0 0 0 \<and>
        avoid [swimmer, bystander] swimmer = Vector3 0 0 0 \<and>
        align [swimmer, bystander] swimmer = Vector3 0 0 0 \<and>
        velocity (update_fish [swimmer, bystander] swimmer) = velocity swimmer \<and>
        position (update_fish [swimmer, bystander] swimmer) =
          wrap (add (position swimmer) (velocity swimmer))"
    by blast
  then show ?thesis
    using acc b by (simp add: far radii)
qed

subsection \<open>C10: the size of the forces\<close>

text \<open>
  Claim C10. Every component of each of the three forces lies in
  \<open>[-maxFishForce, maxFishForce]\<close> (the zero vector included). For a fish whose acceleration
  is zero on entry, every component of the acceleration accumulated in a frame is at most
  \<open>(cohesionStrength + avoidanceStrength + alignmentStrength) * maxFishForce\<close> in absolute
  value, and the velocity is the clamp of the old velocity plus that acceleration.
\<close>

theorem force_bounds:
  "bounded_by maxFishForce (cohesion fishies fish) \<and>
   bounded_by maxFishForce (avoid fishies fish) \<and>
   bounded_by maxFishForce (align fishies fish) \<and>
   (acceleration fish = Vector3 0 0 0 \<longrightarrow>
      bounded_by ((cohesionStrength + avoidanceStrength + alignmentStrength) * maxFishForce)
        (accelerate fishies fish) \<and>
      velocity (update_fish fishies fish) =
        clampScalar (add (velocity fish) (accelerate fishies fish)) (- maxFishSpeed) maxFishSpeed)"
  by (simp add: cohesion_bounded avoid_bounded align_bounded accelerate_bounded velocity_update_fish)

theorem force_bounds_witness:
  "acceleration bystander = Vector3 0 0 0 \<and>
   bounded_by ((cohesionStrength + avoidanceStrength + alignmentStrength) * maxFishForce)
     (accelerate [swimmer, bystander] bystander)"
  using force_bounds [of "[swimmer, bystander]" bystander]
  by (simp add: bystander_def)

end
